theory Spec2Isabelle
  imports Main "HOL-Library.Multiset"
begin

section \<open>Strings\<close>

text \<open>
  JavaScript strings are modelled as \<^typ>\<open>string\<close>. The case maps act on the ASCII
  letters and leave every other character alone; white space is the ASCII white space
  (tab, line feed, vertical tab, form feed, carriage return, space).
\<close>

definition toUpperCase_char :: "char \<Rightarrow> char" where
  "toUpperCase_char c =
     (let n = (of_char c :: nat) in if 97 \<le> n \<and> n \<le> 122 then char_of (n - 32) else c)"

definition toLowerCase_char :: "char \<Rightarrow> char" where
  "toLowerCase_char c =
     (let n = (of_char c :: nat) in if 65 \<le> n \<and> n \<le> 90 then char_of (n + 32) else c)"


definition toLowerCase :: "string \<Rightarrow> string" where
  "toLowerCase s = map toLowerCase_char s"

definition is_digit :: "char \<Rightarrow> bool" where
  "is_digit c = (let n = (of_char c :: nat) in 48 \<le> n \<and> n \<le> 57)"

definition is_space :: "char \<Rightarrow> bool" where
  "is_space c = (let n = (of_char c :: nat) in (9 \<le> n \<and> n \<le> 13) \<or> n = 32)"

text \<open>\<^verbatim>\<open>s.trim()\<close>: white space removed at both ends.\<close>

definition trim :: "string \<Rightarrow> string" where
  "trim s = rev (dropWhile is_space (rev (dropWhile is_space s)))"

text \<open>
  \<^verbatim>\<open>s.split(c)\<close> for a one-character separator: never the empty list
  (\<^verbatim>\<open>''.split('/')\<close> is \<^verbatim>\<open>['']\<close>).
\<close>

fun split :: "char \<Rightarrow> string \<Rightarrow> string list" where
  "split c [] = [[]]"
| "split c (x # xs) =
     (if x = c then [] # split c xs
      else (case split c xs of [] \<Rightarrow> [[x]] | w # ws \<Rightarrow> (x # w) # ws))"

text \<open>\<^verbatim>\<open>xs.join(sep)\<close>.\<close>

fun join :: "string \<Rightarrow> string list \<Rightarrow> string" where
  "join sep [] = []"
| "join sep [x] = x"
| "join sep (x # y # ys) = x @ sep @ join sep (y # ys)"

text \<open>\<^verbatim>\<open>s.startsWith(p)\<close>.\<close>

definition startsWith :: "string \<Rightarrow> string \<Rightarrow> bool" where
  "startsWith s p = (take (length p) s = p)"

text \<open>\<^verbatim>\<open>s.includes(c)\<close> for a one-character string.\<close>

definition includes_char :: "string \<Rightarrow> char \<Rightarrow> bool" where
  "includes_char s c = (c \<in> set s)"

text \<open>The regular expression \<^verbatim>\<open>/^v\d+$/i\<close>.\<close>

definition is_version :: "string \<Rightarrow> bool" where
  "is_version s =
     (case s of [] \<Rightarrow> False
      | c # ds \<Rightarrow> (c = CHR ''v'' \<or> c = CHR ''V'') \<and> ds \<noteq> [] \<and> list_all is_digit ds)"

text \<open>
  \<^verbatim>\<open>xs.slice(0, e)\<close> for an integer \<open>e\<close>: a negative end counts from the end of
  the list.
\<close>

definition slice0 :: "'a list \<Rightarrow> int \<Rightarrow> 'a list" where
  "slice0 xs e =
     (if e < 0 then take (nat (max (int (length xs) + e) 0)) xs else take (nat e) xs)"

section \<open>Inferring a folder from a path\<close>

record infer_options =
  stripApiPrefix :: bool
  stripVersion :: bool
  maxDepth :: int
  capitalizeSegments :: bool

text \<open>The defaults of the destructured parameter of \<^verbatim>\<open>inferFolderFromPath\<close>.\<close>

definition infer_defaults :: infer_options where
  "infer_defaults =
     \<lparr>infer_options.stripApiPrefix = True, stripVersion = False,
      infer_options.maxDepth = 3, capitalizeSegments = True\<rparr>"

text \<open>\<^verbatim>\<open>word.charAt(0).toUpperCase() + word.slice(1).toLowerCase()\<close>\<close>

definition capitalize_word :: "string \<Rightarrow> string" where
  "capitalize_word w =
     (case w of [] \<Rightarrow> [] | c # cs \<Rightarrow> toUpperCase_char c # toLowerCase cs)"

definition capitalize_segment :: "string \<Rightarrow> string" where
  "capitalize_segment s = join '' '' (map capitalize_word (split CHR ''-'' s))"

definition strip_api :: "bool \<Rightarrow> string list \<Rightarrow> string list" where
  "strip_api flag segments =
     (case segments of [] \<Rightarrow> []
      | s # rest \<Rightarrow> if flag \<and> toLowerCase s = ''api'' then rest else segments)"

definition strip_version :: "bool \<Rightarrow> string list \<Rightarrow> string list" where
  "strip_version flag segments =
     (case segments of [] \<Rightarrow> []
      | s # rest \<Rightarrow> if flag \<and> is_version s then rest else segments)"

text \<open>The action heuristic: a hyphenated last segment goes when another segment stays.\<close>

definition drop_action :: "string list \<Rightarrow> string list" where
  "drop_action segments =
     (if length segments > 1 \<and> includes_char (last segments) CHR ''-''
      then butlast segments else segments)"

definition inferFolderFromPath :: "string \<Rightarrow> infer_options \<Rightarrow> string" where
  "inferFolderFromPath urlPath options =
     (let segments = filter (\<lambda>s. s \<noteq> []) (split CHR ''/'' urlPath);
          segments = strip_api (infer_options.stripApiPrefix options) segments;
          segments = strip_version (stripVersion options) segments;
          segments = filter (\<lambda>s. \<not> startsWith s ''{'') segments;
          segments = drop_action segments;
          segments = slice0 segments (infer_options.maxDepth options);
          segments = (if capitalizeSegments options
                      then map capitalize_segment segments else segments)
      in join ''/'' segments)"

section \<open>JSON values, operations and endpoints\<close>

datatype json =
  JNull
| JBool bool
| JNum int
| JStr string
| JArr "json list"
| JObj "(string \<times> json) list"

text \<open>
  An object used as a dictionary is an association list of its own properties in
  enumeration order, with distinct keys; properties inherited from a prototype are not
  part of the model. An OpenAPI operation object is a record of the properties that
  \<^verbatim>\<open>parseEndpoints\<close> reads, each absent or null (\<open>None\<close>) or a value of its type,
  and of the other properties, which pass through.
\<close>

record operation =
  op_summary :: "string option"
  op_description :: "string option"
  op_tags :: "string list option"
  op_deprecated :: "bool option"
  x_apidog_folder :: "string option"
  x_apidog_status :: "string option"
  x_apidog_maintainer :: "string option"
  op_other :: "(string \<times> json) list"

record endpoint =
  "method" :: string
  path :: string
  summary :: string
  description :: string
  tags :: "string list"
  deprecated :: bool
  folder :: "string option"
  status :: "string option"
  maintainer :: "string option"
  operation :: "operation option"

text \<open>\<^verbatim>\<open>s || null\<close> on a string that may be absent: the empty string is falsy.\<close>

definition or_null :: "string option \<Rightarrow> string option" where
  "or_null x = (case x of None \<Rightarrow> None | Some s \<Rightarrow> if s = [] then None else Some s)"

text \<open>\<^verbatim>\<open>ep.folder || ep.operation?.['x-apidog-folder'] || null\<close>\<close>

definition currentFolderOf :: "endpoint \<Rightarrow> string option" where
  "currentFolderOf ep =
     (case or_null (folder ep) of
        Some f \<Rightarrow> Some f
      | None \<Rightarrow> (case endpoint.operation ep of None \<Rightarrow> None | Some op \<Rightarrow> or_null (x_apidog_folder op)))"

text \<open>
  \<^verbatim>\<open>if (!groups[k]) groups[k] = []; groups[k].push(v)\<close>: a new key goes to the end,
  an existing group keeps its place.
\<close>

fun push_group :: "string \<Rightarrow> 'a \<Rightarrow> (string \<times> 'a list) list \<Rightarrow> (string \<times> 'a list) list" where
  "push_group k v [] = [(k, [v])]"
| "push_group k v ((k', vs) # rest) =
     (if k' = k then (k', vs @ [v]) # rest else (k', vs) # push_group k v rest)"

section \<open>Analysing the current folders\<close>

record analysis =
  totalEndpoints :: nat
  totalFolders :: nat
  unfolderedCount :: nat
  folders :: "(string \<times> endpoint list) list"
  unfoldered :: "endpoint list"



section \<open>Proposing a reorganization\<close>

record plan_options =
  strategy :: string
  groupByVersion :: bool
  stripApiPrefix :: bool
  maxDepth :: int
  customMappings :: "(string \<times> string) list"

text \<open>The defaults of the destructured parameter of \<^verbatim>\<open>proposeReorganization\<close>.\<close>

definition plan_defaults :: plan_options where
  "plan_defaults =
     \<lparr>strategy = ''path-based'', groupByVersion = False, stripApiPrefix = True,
      maxDepth = 3, customMappings = []\<rparr>"

record change =
  "method" :: string
  path :: string
  summary :: string
  oldFolder :: string
  newFolder :: string

record unchanged_ref =
  "method" :: string
  path :: string
  folder :: "string option"

record endpoint_ref =
  "method" :: string
  path :: string
  summary :: string

record plan =
  strategy :: string
  totalEndpoints :: nat
  changesCount :: nat
  unchangedCount :: nat
  proposedFolders :: "(string \<times> endpoint_ref list) list"
  changes :: "change list"
  unchanged :: "unchanged_ref list"

text \<open>\<^verbatim>\<open>w.charAt(0).toUpperCase() + w.slice(1)\<close>, the word map of the flat strategy.\<close>

definition flat_word :: "string \<Rightarrow> string" where
  "flat_word w = (case w of [] \<Rightarrow> [] | c # cs \<Rightarrow> toUpperCase_char c # cs)"

definition flat_segments :: "string \<Rightarrow> string list" where
  "flat_segments p =
     filter (\<lambda>s. s \<noteq> [] \<and> \<not> startsWith s ''{'' \<and> toLowerCase s \<noteq> ''api'' \<and> \<not> is_version s)
       (split CHR ''/'' p)"

text \<open>
  The \<^verbatim>\<open>switch (strategy)\<close>. The call of the default branch passes no
  \<^verbatim>\<open>stripVersion\<close>, which so takes its default.
\<close>

definition strategyFolder :: "plan_options \<Rightarrow> endpoint \<Rightarrow> string option \<Rightarrow> string" where
  "strategyFolder options ep currentFolder =
     (if plan_options.strategy options = ''path-based'' then
        inferFolderFromPath (endpoint.path ep)
          (infer_defaults\<lparr>infer_options.stripApiPrefix := plan_options.stripApiPrefix options,
             stripVersion := \<not> groupByVersion options,
             infer_options.maxDepth := plan_options.maxDepth options\<rparr>)
      else if plan_options.strategy options = ''preserve-top-level'' then
        (case currentFolder of
           Some cf \<Rightarrow>
             (let topLevel = (case split CHR ''/'' cf of [] \<Rightarrow> ''undefined'' | t # _ \<Rightarrow> t);
                  inferredSub = inferFolderFromPath (endpoint.path ep)
                    (infer_defaults\<lparr>infer_options.stripApiPrefix := plan_options.stripApiPrefix options,
                       stripVersion := True,
                       infer_options.maxDepth := plan_options.maxDepth options - 1\<rparr>)
              in topLevel @ ''/'' @ inferredSub)
         | None \<Rightarrow>
             inferFolderFromPath (endpoint.path ep)
               (infer_defaults\<lparr>infer_options.stripApiPrefix := plan_options.stripApiPrefix options,
                  stripVersion := \<not> groupByVersion options,
                  infer_options.maxDepth := plan_options.maxDepth options\<rparr>))
      else if plan_options.strategy options = ''flat'' then
        (case flat_segments (endpoint.path ep) of
           [] \<Rightarrow> ''Other''
         | s # _ \<Rightarrow> if s = [] then ''Other''
                    else join '' '' (map flat_word (split CHR ''-'' s)))
      else
        inferFolderFromPath (endpoint.path ep)
          (infer_defaults\<lparr>infer_options.stripApiPrefix := plan_options.stripApiPrefix options,
             infer_options.maxDepth := plan_options.maxDepth options\<rparr>))"

text \<open>
  The folder proposed for one endpoint: the first custom mapping whose prefix starts the
  path, else the strategy; a blank result becomes \<^verbatim>\<open>'Other'\<close>.
\<close>

definition proposedFolder :: "plan_options \<Rightarrow> endpoint \<Rightarrow> string" where
  "proposedFolder options ep =
     (let currentFolder = currentFolderOf ep;
          newFolder =
            (case find (\<lambda>m. startsWith (endpoint.path ep) (fst m)) (customMappings options) of
               Some matchedMapping \<Rightarrow> snd matchedMapping
             | None \<Rightarrow> strategyFolder options ep currentFolder)
      in if newFolder = [] \<or> trim newFolder = [] then ''Other'' else newFolder)"

text \<open>The state of the loop: \<open>changes\<close>, \<open>unchanged\<close> and \<open>proposedFolders\<close>.\<close>

type_synonym plan_state =
  "change list \<times> unchanged_ref list \<times> (string \<times> endpoint list) list"

definition plan_step :: "plan_options \<Rightarrow> plan_state \<Rightarrow> endpoint \<Rightarrow> plan_state" where
  "plan_step options st ep =
     (case st of (chs, uns, props) \<Rightarrow>
        (let currentFolder = currentFolderOf ep;
             nf = proposedFolder options ep;
             props' = push_group nf ep props
         in if currentFolder = Some nf
            then (chs,
                  uns @ [\<lparr>unchanged_ref.method = endpoint.method ep,
                           unchanged_ref.path = endpoint.path ep,
                           unchanged_ref.folder = currentFolder\<rparr>],
                  props')
            else (chs @ [\<lparr>change.method = endpoint.method ep,
                           change.path = endpoint.path ep,
                           change.summary = endpoint.summary ep,
                           oldFolder = (case currentFolder of None \<Rightarrow> ''(none)'' | Some f \<Rightarrow> f),
                           newFolder = nf\<rparr>],
                  uns, props')))"

definition to_ref :: "endpoint \<Rightarrow> endpoint_ref" where
  "to_ref e =
     \<lparr>endpoint_ref.method = endpoint.method e, endpoint_ref.path = endpoint.path e,
      endpoint_ref.summary = endpoint.summary e\<rparr>"

definition proposeReorganization :: "endpoint list \<Rightarrow> plan_options \<Rightarrow> plan" where
  "proposeReorganization endpoints options =
     (case foldl (plan_step options) ([], [], []) endpoints of (chs, uns, props) \<Rightarrow>
        \<lparr>plan.strategy = plan_options.strategy options,
         plan.totalEndpoints = length endpoints,
         changesCount = length chs,
         unchangedCount = length uns,
         proposedFolders = map (\<lambda>(f, eps). (f, map to_ref eps)) props,
         changes = chs,
         unchanged = uns\<rparr>)"

section \<open>Documents: parsing endpoints and applying a plan\<close>














section \<open>The structural diff\<close>















section \<open>The store: applying a plan to a document in memory\<close>


















section \<open>Auxiliary definitions for the properties\<close>

text \<open>Two endpoints to evaluate on: one in folder \<^verbatim>\<open>A\<close>, one in no folder.\<close>

definition sample_endpoint :: "string \<Rightarrow> string option \<Rightarrow> endpoint" where
  "sample_endpoint p f =
     \<lparr>endpoint.method = ''GET'', endpoint.path = p, endpoint.summary = [], description = [],
      tags = [], deprecated = False, endpoint.folder = f, status = None, maintainer = None,
      operation = None\<rparr>"

definition sample_endpoints :: "endpoint list" where
  "sample_endpoints = [sample_endpoint ''/a'' (Some ''A''), sample_endpoint ''/b'' None]"

text \<open>What the loop of \<^verbatim>\<open>proposeReorganization\<close> computes, as maps and filters.\<close>

definition is_changed :: "plan_options \<Rightarrow> endpoint \<Rightarrow> bool" where
  "is_changed options ep = (currentFolderOf ep \<noteq> Some (proposedFolder options ep))"

definition change_of :: "plan_options \<Rightarrow> endpoint \<Rightarrow> change" where
  "change_of options ep =
     \<lparr>change.method = endpoint.method ep, change.path = endpoint.path ep,
      change.summary = endpoint.summary ep,
      oldFolder = (case currentFolderOf ep of None \<Rightarrow> ''(none)'' | Some f \<Rightarrow> f),
      newFolder = proposedFolder options ep\<rparr>"

definition unchanged_of :: "endpoint \<Rightarrow> unchanged_ref" where
  "unchanged_of ep =
     \<lparr>unchanged_ref.method = endpoint.method ep, unchanged_ref.path = endpoint.path ep,
      unchanged_ref.folder = currentFolderOf ep\<rparr>"
















section \<open>Properties of the folder inference\<close>


section \<open>Properties of the analysis\<close>















section \<open>Properties of the plan\<close>

lemma plan_fold:
  "foldl (plan_step options) (chs, uns, props) eps =
     (chs @ map (change_of options) (filter (is_changed options) eps),
      uns @ map unchanged_of (filter (\<lambda>e. \<not> is_changed options e) eps),
      foldl (\<lambda>g e. push_group (proposedFolder options e) e g) props eps)"
  by (induction eps arbitrary: chs uns props)
     (auto simp: plan_step_def is_changed_def change_of_def unchanged_of_def Let_def)

lemma plan_changes:
  "changes (proposeReorganization eps options)
     = map (change_of options) (filter (is_changed options) eps)"
  by (simp add: proposeReorganization_def plan_fold)









lemma sample_changes:
  "changes (proposeReorganization sample_endpoints plan_defaults)
     = [\<lparr>change.method = ''GET'', change.path = ''/b'', change.summary = [],
         oldFolder = ''(none)'', newFolder = ''B''\<rparr>]"
  by code_simp

text \<open>
  C5, as stated, fails: an endpoint with no current folder whose proposed folder is the
  literal \<^verbatim>\<open>(none)\<close> gives a change with equal \<^verbatim>\<open>oldFolder\<close> and
  \<^verbatim>\<open>newFolder\<close>.
\<close>

theorem change_folders_counterexample:
  "changes (proposeReorganization [sample_endpoint ''/(none)'' None] plan_defaults)
     = [\<lparr>change.method = ''GET'', change.path = ''/(none)'', change.summary = [],
         oldFolder = ''(none)'', newFolder = ''(none)''\<rparr>]"
  by code_simp

text \<open>
  C5, amended. Every change of a plan comes from an input endpoint whose current folder
  (null when absent) is not the proposed folder; its \<^verbatim>\<open>oldFolder\<close> is the current
  folder, or \<^verbatim>\<open>(none)\<close> when absent; so \<^verbatim>\<open>oldFolder\<close> and
  \<^verbatim>\<open>newFolder\<close> differ unless the endpoint has no current folder and the proposed
  folder is the literal \<^verbatim>\<open>(none)\<close>.
\<close>

theorem change_folders_differ:
  "\<forall>c \<in> set (changes (proposeReorganization eps options)).
     \<exists>ep \<in> set eps.
       change.method c = endpoint.method ep \<and> change.path c = endpoint.path ep
       \<and> newFolder c = proposedFolder options ep
       \<and> currentFolderOf ep \<noteq> Some (newFolder c)
       \<and> oldFolder c = (case currentFolderOf ep of None \<Rightarrow> ''(none)'' | Some f \<Rightarrow> f)
       \<and> (oldFolder c \<noteq> newFolder c \<or> (currentFolderOf ep = None \<and> newFolder c = ''(none)''))"
proof
  fix c assume "c \<in> set (changes (proposeReorganization eps options))"
  then obtain ep where ep: "ep \<in> set eps" "is_changed options ep" "c = change_of options ep"
    by (auto simp: plan_changes)
  have "oldFolder c \<noteq> newFolder c \<or> (currentFolderOf ep = None \<and> newFolder c = ''(none)'')"
    using ep(2,3) by (cases "currentFolderOf ep") (auto simp: is_changed_def change_of_def)
  with ep show "\<exists>ep \<in> set eps.
       change.method c = endpoint.method ep \<and> change.path c = endpoint.path ep
       \<and> newFolder c = proposedFolder options ep
       \<and> currentFolderOf ep \<noteq> Some (newFolder c)
       \<and> oldFolder c = (case currentFolderOf ep of None \<Rightarrow> ''(none)'' | Some f \<Rightarrow> f)
       \<and> (oldFolder c \<noteq> newFolder c \<or> (currentFolderOf ep = None \<and> newFolder c = ''(none)''))"
    by (intro bexI[of _ ep]) (simp_all add: is_changed_def change_of_def)
qed

theorem change_folders_differ_witness:
  "changes (proposeReorganization sample_endpoints plan_defaults) \<noteq> []
   \<and> list_all (\<lambda>c. oldFolder c \<noteq> newFolder c)
        (changes (proposeReorganization sample_endpoints plan_defaults))"
proof -
  have "\<forall>c \<in> set (changes (proposeReorganization sample_endpoints plan_defaults)).
          newFolder c \<noteq> ''(none)''"
    by (simp add: sample_changes)
  with change_folders_differ[of sample_endpoints plan_defaults]
  have "\<forall>c \<in> set (changes (proposeReorganization sample_endpoints plan_defaults)).
          oldFolder c \<noteq> newFolder c"
    by blast
  then show ?thesis
    by (simp add: list_all_iff sample_changes)
qed














section \<open>Properties of the diff\<close>






section \<open>Properties of applying a plan\<close>









section \<open>Planning again after applying\<close>





























section \<open>Properties of applying a plan in the store\<close>



























end
